theory Spec2Isabelle
  imports Main "HOL-Library.Word" "HOL-Library.Signed_Division"
begin

unbundle bit_operations_syntax

section \<open>Go values used by the forwarder\<close>

text \<open>
  Go's \<open>int64\<close> and \<open>uint64\<close> are both 64-bit words; the conversions \<open>uint64(x)\<close> and
  \<open>int64(x)\<close> keep the bit pattern, so they are the identity on \<open>64 word\<close>. A signed
  reading is \<open>sint\<close>, an unsigned one \<open>uint\<close>. Widening a narrower signed integer
  (\<open>int16\<close>, \<open>int32\<close>) to \<open>int64\<close> extends the sign: \<open>scast\<close>.
\<close>

type_synonym byte = "8 word"
type_synonym int16 = "16 word"
type_synonym int32 = "32 word"
type_synonym int64 = "64 word"
type_synonym uint64 = "64 word"

text \<open>
  \<open>float64\<close> is kept as its IEEE-754 bit pattern. The only float operation of the
  program is the comparison \<open>x == 0\<close>, true exactly for the two signed zeros (all bits
  but the sign bit clear) and false for every other pattern, NaN included.
\<close>

type_synonym float64 = "64 word"

definition float64_eq_zero :: "float64 \<Rightarrow> bool" where
  "float64_eq_zero x = (x AND 0x7FFFFFFFFFFFFFFF = 0)"

text \<open>\<open>database/sql\<close>: a nullable column is a struct of the value and a \<open>Valid\<close> flag.\<close>

record NullInt64 =
  Int64 :: int64
  Valid :: bool

record NullFloat64 =
  Float64 :: float64
  FValid :: bool

record NullString =
  String :: string
  SValid :: bool

subsection \<open>encoding/binary, big endian\<close>

text \<open>
  \<open>binary.BigEndian.PutUint64(b, v)\<close> stores \<open>byte(v >> 56)\<close> at \<open>b[0]\<close> down to
  \<open>byte(v)\<close> at \<open>b[7]\<close> and leaves the rest of \<open>b\<close> alone. It panics when \<open>b\<close> has fewer
  than 8 bytes; the forwarder only passes freshly made buffers of 16 and 8 bytes.
\<close>

definition PutUint64 :: "byte list \<Rightarrow> uint64 \<Rightarrow> byte list" where
  "PutUint64 b v =
     b[0 := ucast (drop_bit 56 v),
       1 := ucast (drop_bit 48 v),
       2 := ucast (drop_bit 40 v),
       3 := ucast (drop_bit 32 v),
       4 := ucast (drop_bit 24 v),
       5 := ucast (drop_bit 16 v),
       6 := ucast (drop_bit 8 v),
       7 := ucast v]"

text \<open>\<open>make([]byte, n)\<close>: \<open>n\<close> zero bytes.\<close>

definition make_bytes :: "nat \<Rightarrow> byte list" where
  "make_bytes n = replicate n 0"

text \<open>
  Reading a byte string as a big-endian unsigned number of a given width: the first
  byte is the most significant one. At 64 bits and 8 bytes this is
  \<open>binary.BigEndian.Uint64\<close>; at 128 bits and 16 bytes it is the numeric value of a
  trace ID.
\<close>

fun be_word :: "byte list \<Rightarrow> 'a::len word \<Rightarrow> 'a word" where
  "be_word [] acc = acc"
| "be_word (b # bs) acc = be_word bs (push_bit 8 acc OR ucast b)"

definition Uint64 :: "byte list \<Rightarrow> uint64" where
  "Uint64 b = be_word (take 8 b) 0"

definition Uint128 :: "byte list \<Rightarrow> 128 word" where
  "Uint128 b = be_word (take 16 b) 0"

subsection \<open>time\<close>

text \<open>
  A \<open>time.Time\<close> without monotonic reading is a count of seconds since January 1 of
  year 1, 00:00:00 UTC, and a nanosecond within the second; a \<open>time.Duration\<close> is an
  \<open>int64\<close> count of nanoseconds. \<open>Time.Add\<close> splits the duration with Go's
  truncating \<open>/\<close> and \<open>%\<close> and carries into the seconds. The seconds are kept
  unbounded here. \<open>Time.IsZero\<close> holds of the zero value of the type, the instant the
  count starts at.
\<close>

record Time =
  sec :: int
  nsec :: int

type_synonym Duration = int64

definition Add :: "Time \<Rightarrow> Duration \<Rightarrow> Time" where
  "Add t d =
     (let dsec = sint d sdiv 1000000000;
          n = nsec t + sint d smod 1000000000
      in if n \<ge> 1000000000 then \<lparr>sec = sec t + dsec + 1, nsec = n - 1000000000\<rparr>
         else if n < 0 then \<lparr>sec = sec t + dsec - 1, nsec = n + 1000000000\<rparr>
         else \<lparr>sec = sec t + dsec, nsec = n\<rparr>)"

definition IsZero :: "Time \<Rightarrow> bool" where
  "IsZero t = (sec t = 0 \<and> nsec t = 0)"


subsection \<open>Attributes\<close>

datatype Value = INT64 int64 | FLOAT64 float64 | STRING string

type_synonym KeyValue = "string \<times> Value"

definition attribute_Int64 :: "string \<Rightarrow> int64 \<Rightarrow> KeyValue" where
  "attribute_Int64 k v = (k, INT64 v)"

definition attribute_Float64 :: "string \<Rightarrow> float64 \<Rightarrow> KeyValue" where
  "attribute_Float64 k v = (k, FLOAT64 v)"

definition attribute_String :: "string \<Rightarrow> string \<Rightarrow> KeyValue" where
  "attribute_String k v = (k, STRING v)"

text \<open>\<open>attribute.Int(k, v)\<close> stores \<open>int64(v)\<close>; the argument here is Go's \<open>int\<close>.\<close>

definition attribute_Int :: "string \<Rightarrow> int64 \<Rightarrow> KeyValue" where
  "attribute_Int k v = (k, INT64 v)"

section \<open>The forwarder\<close>

subsection \<open>Optional metrics\<close>

definition setMetricIfValueFloat :: "KeyValue list \<Rightarrow> string \<Rightarrow> NullFloat64 \<Rightarrow> KeyValue list" where
  "setMetricIfValueFloat attributes key v =
     (if \<not> FValid v \<or> float64_eq_zero (Float64 v) then attributes
      else attributes @ [attribute_Float64 key (Float64 v)])"

definition setMetricIfValue :: "KeyValue list \<Rightarrow> string \<Rightarrow> NullInt64 \<Rightarrow> KeyValue list" where
  "setMetricIfValue attributes key v =
     (if \<not> Valid v \<or> Int64 v = 0 then attributes
      else attributes @ [attribute_Int64 key (Int64 v)])"

record BlockStats =
  hit :: NullInt64
  read :: NullInt64
  written :: NullInt64
  dirtied :: NullInt64

record BlockTime =
  readTime :: NullFloat64
  writeTime :: NullFloat64

subsection \<open>A scanned row\<close>

text \<open>
  The variables \<open>rows.Scan\<close> fills for one row, under the names and types
  \<open>fetchSpans\<close> declares them with. \<open>Scan\<close> fills only \<open>read\<close> and \<open>written\<close> of
  \<open>tempBlks\<close>.
\<close>

record SpanRecord =
  traceId :: int64
  parentId :: int64
  spanId :: int64
  span_type :: string
  span_operation :: string
  deparse_info :: NullString
  parameters :: NullString
  span_start :: Time
  span_start_ns :: int16
  duration :: uint64
  startup :: NullInt64
  pid :: int32
  subxact_count :: int32
  sql_error_code :: string
  rowNumber :: NullInt64
  planStartupCost :: NullFloat64
  planTotalCost :: NullFloat64
  planRows :: NullFloat64
  planWidth :: NullInt64
  sharedBlks :: BlockStats
  localBlks :: BlockStats
  blkTime :: BlockTime
  tempBlks :: BlockStats
  tempBlkTime :: BlockTime
  wal_records :: NullInt64
  wal_fpi :: NullInt64
  wal_bytes :: NullInt64
  jit_functions :: NullInt64
  jit_generation_time :: NullFloat64
  jit_inlining_time :: NullFloat64
  jit_optimization_time :: NullFloat64
  jit_emission_time :: NullFloat64

subsection \<open>The attribute list of a row\<close>

text \<open>
  The statements of \<open>fetchSpans\<close> that build \<open>attributes\<close>, in their order. The
  result of the first call, for \<open>rows\<close>, is not assigned: the list stays empty there.
\<close>

definition record_attributes :: "SpanRecord \<Rightarrow> KeyValue list" where
  "record_attributes r =
    (let attributes = [];
         unused = setMetricIfValue attributes ''rows'' (rowNumber r);
         attributes = attributes @ [attribute_Int ''pid'' (scast (pid r))];
         attributes = attributes @ [attribute_Int ''subxact_count'' (scast (subxact_count r))];

         attributes = setMetricIfValue attributes ''block.shared.hit'' (hit (sharedBlks r));
         attributes = setMetricIfValue attributes ''block.shared.read'' (read (sharedBlks r));
         attributes = setMetricIfValue attributes ''block.shared.dirtied'' (dirtied (sharedBlks r));
         attributes = setMetricIfValue attributes ''block.shared.written'' (written (sharedBlks r));

         attributes = setMetricIfValue attributes ''block.local.hit'' (hit (localBlks r));
         attributes = setMetricIfValue attributes ''block.local.read'' (read (localBlks r));
         attributes = setMetricIfValue attributes ''block.local.dirtied'' (dirtied (localBlks r));
         attributes = setMetricIfValue attributes ''block.local.written'' (written (localBlks r));

         attributes = setMetricIfValueFloat attributes ''block.read_time'' (readTime (blkTime r));
         attributes = setMetricIfValueFloat attributes ''block.write_time'' (writeTime (blkTime r));

         attributes = setMetricIfValue attributes ''block.temp.read'' (read (tempBlks r));
         attributes = setMetricIfValue attributes ''block.temp.written'' (written (tempBlks r));
         attributes = setMetricIfValueFloat attributes ''block.temp.read_time'' (readTime (tempBlkTime r));
         attributes = setMetricIfValueFloat attributes ''block.temp.write_time'' (writeTime (tempBlkTime r));

         attributes = setMetricIfValue attributes ''wal.records'' (wal_records r);
         attributes = setMetricIfValue attributes ''wal.fpi'' (wal_fpi r);
         attributes = setMetricIfValue attributes ''wal.bytes'' (wal_bytes r);

         attributes = setMetricIfValueFloat attributes ''plan.startup_cost'' (planStartupCost r);
         attributes = setMetricIfValueFloat attributes ''plan.total_cost'' (planTotalCost r);
         attributes = setMetricIfValueFloat attributes ''plan.rows'' (planRows r);
         attributes = setMetricIfValue attributes ''plan.width'' (planWidth r);

         attributes = setMetricIfValue attributes ''jit.functions'' (jit_functions r);
         attributes = setMetricIfValueFloat attributes ''jit.generation_time'' (jit_generation_time r);
         attributes = setMetricIfValueFloat attributes ''jit.inlining_time'' (jit_inlining_time r);
         attributes = setMetricIfValueFloat attributes ''jit.optimization_time'' (jit_optimization_time r);
         attributes = setMetricIfValueFloat attributes ''jit.emission_time'' (jit_emission_time r)
     in if sql_error_code r \<noteq> ''00000''
        then (attributes @ [attribute_String ''error.msg'' ''Query error''])
               @ [attribute_String ''error.msg'' (sql_error_code r)]
        else attributes)"

text \<open>\<open>fmt.Sprintf("%s %s", a, b)\<close>\<close>

definition Sprintf_s_s :: "string \<Rightarrow> string \<Rightarrow> string" where
  "Sprintf_s_s a b = a @ '' '' @ b"

definition spanName :: "SpanRecord \<Rightarrow> string" where
  "spanName r =
     (let spanName = span_operation r
      in if SValid (deparse_info r) then Sprintf_s_s spanName (String (deparse_info r))
         else spanName)"

subsection \<open>The tracing SDK at its boundary\<close>

text \<open>
  The SDK is an external library. What the forwarder relies on is its span-start
  contract: the new span's parent is the span context carried by the context passed in;
  when that parent has a valid (non-zero) trace ID the span takes it over and asks the
  identifier generator for a span ID only (\<open>NewSpanID\<close>), otherwise it asks the
  generator for both (\<open>NewIDs\<close>). Ending a span records the end timestamp and hands a
  snapshot of the span to the span processor. A timestamp option whose time is the
  zero \<open>time.Time\<close> counts as not given: the SDK then takes the current time
  (\<open>time.Now()\<close>), at the start and at the end alike. The functions below get that
  reading of the wall clock as their first argument. Attributes and kind are recorded
  as given: the \<open>attributes\<close> of a span are the list passed at its start (below the
  SDK's default limit of 128, with non-empty keys). A span context is reduced to its
  two identifiers.
\<close>

record SpanContext =
  TraceID :: "byte list"
  SpanID :: "byte list"

datatype SpanKind = SpanKindUnspecified | SpanKindInternal | SpanKindServer
  | SpanKindClient | SpanKindProducer | SpanKindConsumer

record Span =
  name :: string
  spanContext :: SpanContext
  parent :: SpanContext
  spanKind :: SpanKind
  startTime :: Time
  attributes :: "KeyValue list"
  endTime :: "Time option"

text \<open>\<open>main.go\<close>: the generator installed in the provider, and its two methods.\<close>

record FixedIdGenerator =
  FixedSpanID :: "byte list"
  FixedTraceID :: "byte list"

definition NewSpanID :: "FixedIdGenerator \<Rightarrow> byte list \<Rightarrow> byte list" where
  "NewSpanID f traceID = FixedSpanID f"

definition NewIDs :: "FixedIdGenerator \<Rightarrow> byte list \<times> byte list" where
  "NewIDs f = (FixedTraceID f, FixedSpanID f)"

definition TraceID_IsValid :: "byte list \<Rightarrow> bool" where
  "TraceID_IsValid t = (t \<noteq> make_bytes 16)"

definition tracer_Start ::
  "Time \<Rightarrow> FixedIdGenerator \<Rightarrow> SpanContext \<Rightarrow> string \<Rightarrow> Time \<Rightarrow> KeyValue list \<Rightarrow> SpanKind
     \<Rightarrow> Span" where
  "tracer_Start now g psc nm ts attrs kind =
     (let (tid, sid) =
            (if \<not> TraceID_IsValid (TraceID psc) then NewIDs g
             else (TraceID psc, NewSpanID g (TraceID psc)));
          started = (if IsZero ts then now else ts)
      in \<lparr>name = nm, spanContext = \<lparr>TraceID = tid, SpanID = sid\<rparr>, parent = psc,
          spanKind = kind, startTime = started, attributes = attrs, endTime = None\<rparr>)"

definition span_End :: "Time \<Rightarrow> Span \<Rightarrow> Time \<Rightarrow> Span" where
  "span_End now span ts = span\<lparr>endTime := Some (if IsZero ts then now else ts)\<rparr>"




subsection \<open>The state of a run\<close>

text \<open>
  What \<open>fetchSpans\<close> changes: the generator it shares with the provider, its own
  \<open>ctx\<close> variable (the span context last attached), the calls it has made to the SDK,
  each span-start call with the generator as it stood at the call, and the spans it
  has started and ended. With them goes the wall clock the SDK reads: \<open>clock n\<close> is
  the time an SDK call sees when \<open>n\<close> calls have been made before it.
\<close>

datatype SdkCall = StartCall FixedIdGenerator Span | EndCall Span

record Run =
  generator :: FixedIdGenerator
  ctx :: SpanContext
  calls :: "SdkCall list"
  spans :: "Span list"
  clock :: "nat \<Rightarrow> Time"

text \<open>
  \<open>main\<close>: \<open>fixedGenerator := FixedIdGenerator{}\<close>, both arrays zero, and a context
  with no span in it.
\<close>

definition run0 :: "(nat \<Rightarrow> Time) \<Rightarrow> Run" where
  "run0 now = \<lparr>generator = \<lparr>FixedSpanID = make_bytes 8, FixedTraceID = make_bytes 16\<rparr>,
               ctx = \<lparr>TraceID = make_bytes 16, SpanID = make_bytes 8\<rparr>,
               calls = [], spans = [], clock = now\<rparr>"

subsection \<open>fetchSpans\<close>

text \<open>The loop body after a successful \<open>rows.Scan\<close>.\<close>

definition emit_span :: "SpanRecord \<Rightarrow> Run \<Rightarrow> Run" where
  "emit_span r s =
    (let utraceId = traceId r;
         uparentId = parentId r;
         uspanId = spanId r;
         attributes = record_attributes r;
         traceIdBytes = PutUint64 (make_bytes 16) utraceId;
         spanIdBytes = PutUint64 (make_bytes 8) uspanId;
         parentIdBytes = PutUint64 (make_bytes 8) uparentId;
         spanStartNs = Add (span_start r) (scast (span_start_ns r));
         psc = \<lparr>TraceID = make_bytes 16, SpanID = make_bytes 8\<rparr>;
         psc = psc\<lparr>TraceID := traceIdBytes\<rparr>;
         psc = psc\<lparr>SpanID := parentIdBytes\<rparr>;
         ctx' = psc;
         f = (generator s)\<lparr>FixedSpanID := spanIdBytes\<rparr>;
         span = tracer_Start (clock s (length (calls s))) f ctx' (spanName r) spanStartNs
                  attributes SpanKindServer;
         spanEndNs = Add spanStartNs (duration r);
         span' = span_End (clock s (Suc (length (calls s)))) span spanEndNs
     in \<lparr>generator = f, ctx = ctx',
         calls = calls s @ [StartCall f span, EndCall span'],
         spans = spans s @ [span'], clock = clock s\<rparr>)"

text \<open>
  A fetched row either scans into a record or fails with an error; \<open>log.Fatal\<close> ends
  the process at the first failure. The query itself can fail (\<open>fatalIf\<close>).
\<close>

datatype Outcome = Done | Fatal string

type_synonym ScanResult = "string + SpanRecord"

fun fetch_rows :: "ScanResult list \<Rightarrow> Run \<Rightarrow> Outcome \<times> Run" where
  "fetch_rows [] s = (Done, s)"
| "fetch_rows (Inl err # rows) s = (Fatal err, s)"
| "fetch_rows (Inr r # rows) s = fetch_rows rows (emit_span r s)"

definition fetchSpans :: "string + ScanResult list \<Rightarrow> Run \<Rightarrow> Outcome \<times> Run" where
  "fetchSpans query s =
     (case query of Inl err \<Rightarrow> (Fatal err, s) | Inr rows \<Rightarrow> fetch_rows rows s)"

section \<open>Auxiliary definitions for the statements\<close>

text \<open>
  Widening as the specification words it: the big-endian bytes of the 64-bit value in
  the low-order (last) eight bytes of a buffer of the target width, zero bytes before.
\<close>

definition widen_low_order :: "nat \<Rightarrow> uint64 \<Rightarrow> byte list" where
  "widen_low_order width v = make_bytes (width - 8) @ PutUint64 (make_bytes 8) v"

text \<open>The big-endian bytes of a 64-bit value.\<close>

definition be_bytes :: "uint64 \<Rightarrow> byte list" where
  "be_bytes v =
     [ucast (drop_bit 56 v), ucast (drop_bit 48 v), ucast (drop_bit 40 v), ucast (drop_bit 32 v),
      ucast (drop_bit 24 v), ucast (drop_bit 16 v), ucast (drop_bit 8 v), ucast v]"

text \<open>The start and end timestamps \<open>fetchSpans\<close> computes for a record.\<close>

definition spanStartNs_of :: "SpanRecord \<Rightarrow> Time" where
  "spanStartNs_of r = Add (span_start r) (scast (span_start_ns r))"

definition spanEndNs_of :: "SpanRecord \<Rightarrow> Time" where
  "spanEndNs_of r = Add (spanStartNs_of r) (duration r)"

text \<open>
  The span a run from \<open>run0 now\<close> emits for the record in row \<open>i\<close> (counted from 0):
  its two SDK calls are the calls number \<open>2 * i\<close> and \<open>2 * i + 1\<close> of the run.
\<close>

definition emitted_span :: "(nat \<Rightarrow> Time) \<Rightarrow> nat \<Rightarrow> SpanRecord \<Rightarrow> Span" where
  "emitted_span now i r =
     \<lparr>name = spanName r,
      spanContext = \<lparr>TraceID = be_bytes (traceId r) @ make_bytes 8, SpanID = be_bytes (spanId r)\<rparr>,
      parent = \<lparr>TraceID = be_bytes (traceId r) @ make_bytes 8, SpanID = be_bytes (parentId r)\<rparr>,
      spanKind = SpanKindServer,
      startTime = (if IsZero (spanStartNs_of r) then now (2 * i) else spanStartNs_of r),
      attributes = record_attributes r,
      endTime = Some (if IsZero (spanEndNs_of r) then now (Suc (2 * i)) else spanEndNs_of r)\<rparr>"

text \<open>The generator as it stands at the span-start call for a record.\<close>

definition generator_at :: "SpanRecord \<Rightarrow> FixedIdGenerator" where
  "generator_at r = \<lparr>FixedSpanID = be_bytes (spanId r), FixedTraceID = make_bytes 16\<rparr>"

definition sdk_calls :: "(nat \<Rightarrow> Time) \<Rightarrow> nat \<Rightarrow> SpanRecord \<Rightarrow> SdkCall list" where
  "sdk_calls now i r = [StartCall (generator_at r) ((emitted_span now i r)\<lparr>endTime := None\<rparr>),
                        EndCall (emitted_span now i r)]"

text \<open>
  The optional numeric metrics that \<open>fetchSpans\<close> passes on through
  \<open>setMetricIfValue\<close> and \<open>setMetricIfValueFloat\<close>, each with its attribute key.
\<close>

datatype NullNum = NInt NullInt64 | NFloat NullFloat64

fun present_nonzero :: "NullNum \<Rightarrow> bool" where
  "present_nonzero (NInt v) = (Valid v \<and> Int64 v \<noteq> 0)"
| "present_nonzero (NFloat v) = (FValid v \<and> \<not> float64_eq_zero (Float64 v))"

fun metric_value :: "NullNum \<Rightarrow> Value" where
  "metric_value (NInt v) = INT64 (Int64 v)"
| "metric_value (NFloat v) = FLOAT64 (Float64 v)"

definition optional_metrics :: "SpanRecord \<Rightarrow> (string \<times> NullNum) list" where
  "optional_metrics r =
    [(''block.shared.hit'', NInt (hit (sharedBlks r))),
     (''block.shared.read'', NInt (read (sharedBlks r))),
     (''block.shared.dirtied'', NInt (dirtied (sharedBlks r))),
     (''block.shared.written'', NInt (written (sharedBlks r))),
     (''block.local.hit'', NInt (hit (localBlks r))),
     (''block.local.read'', NInt (read (localBlks r))),
     (''block.local.dirtied'', NInt (dirtied (localBlks r))),
     (''block.local.written'', NInt (written (localBlks r))),
     (''block.read_time'', NFloat (readTime (blkTime r))),
     (''block.write_time'', NFloat (writeTime (blkTime r))),
     (''block.temp.read'', NInt (read (tempBlks r))),
     (''block.temp.written'', NInt (written (tempBlks r))),
     (''block.temp.read_time'', NFloat (readTime (tempBlkTime r))),
     (''block.temp.write_time'', NFloat (writeTime (tempBlkTime r))),
     (''wal.records'', NInt (wal_records r)),
     (''wal.fpi'', NInt (wal_fpi r)),
     (''wal.bytes'', NInt (wal_bytes r)),
     (''plan.startup_cost'', NFloat (planStartupCost r)),
     (''plan.total_cost'', NFloat (planTotalCost r)),
     (''plan.rows'', NFloat (planRows r)),
     (''plan.width'', NInt (planWidth r)),
     (''jit.functions'', NInt (jit_functions r)),
     (''jit.generation_time'', NFloat (jit_generation_time r)),
     (''jit.inlining_time'', NFloat (jit_inlining_time r)),
     (''jit.optimization_time'', NFloat (jit_optimization_time r)),
     (''jit.emission_time'', NFloat (jit_emission_time r))]"

definition optional_attribute :: "string \<times> NullNum \<Rightarrow> KeyValue list" where
  "optional_attribute km = (if present_nonzero (snd km) then [(fst km, metric_value (snd km))] else [])"

definition error_attributes :: "SpanRecord \<Rightarrow> KeyValue list" where
  "error_attributes r =
     (if sql_error_code r \<noteq> ''00000''
      then [(''error.msg'', STRING ''Query error''), (''error.msg'', STRING (sql_error_code r))]
      else [])"

text \<open>Keys that name an error: those that start with \<open>error\<close>.\<close>

definition error_key :: "string \<Rightarrow> bool" where
  "error_key k = (take 5 k = ''error'')"

text \<open>
  Examples: a wall clock that shows a time in the year 2025 and advances by a second
  from one SDK call to the next, the three records of the end-to-end scenario, and
  variations of the first.
\<close>

definition wall_clock :: "nat \<Rightarrow> Time" where
  "wall_clock n = \<lparr>sec = 63900000000 + int n, nsec = 0\<rparr>"

definition null_int :: NullInt64 where
  "null_int = \<lparr>Int64 = 0, Valid = False\<rparr>"

definition null_float :: NullFloat64 where
  "null_float = \<lparr>Float64 = 0, FValid = False\<rparr>"

definition null_string :: NullString where
  "null_string = \<lparr>String = [], SValid = False\<rparr>"

definition no_blocks :: BlockStats where
  "no_blocks = \<lparr>hit = null_int, read = null_int, written = null_int, dirtied = null_int\<rparr>"

definition no_block_time :: BlockTime where
  "no_block_time = \<lparr>readTime = null_float, writeTime = null_float\<rparr>"

definition record_R :: SpanRecord where
  "record_R =
     \<lparr>traceId = 1, parentId = 0, spanId = 10,
      span_type = ''Planner'', span_operation = ''Planner'',
      deparse_info = null_string, parameters = null_string,
      span_start = \<lparr>sec = 63835596800, nsec = 250000000\<rparr>, span_start_ns = 0, duration = 100,
      startup = null_int, pid = 4242, subxact_count = 0, sql_error_code = ''00000'',
      rowNumber = null_int,
      planStartupCost = null_float, planTotalCost = null_float, planRows = null_float,
      planWidth = null_int,
      sharedBlks = no_blocks, localBlks = no_blocks, blkTime = no_block_time,
      tempBlks = no_blocks, tempBlkTime = no_block_time,
      wal_records = null_int, wal_fpi = null_int, wal_bytes = null_int,
      jit_functions = null_int, jit_generation_time = null_float,
      jit_inlining_time = null_float, jit_optimization_time = null_float,
      jit_emission_time = null_float\<rparr>"

definition record_C1 :: SpanRecord where
  "record_C1 = record_R\<lparr>parentId := 10, spanId := 11, span_type := ''Executor'',
     span_operation := ''Executor'', duration := 40\<rparr>"

definition record_C2 :: SpanRecord where
  "record_C2 = record_R\<lparr>parentId := 10, spanId := 12, span_type := ''Executor'',
     span_operation := ''Executor'', duration := 30\<rparr>"

definition record_wal5 :: SpanRecord where
  "record_wal5 = record_R\<lparr>wal_records := \<lparr>Int64 = 5, Valid = True\<rparr>\<rparr>"

definition record_wal0 :: SpanRecord where
  "record_wal0 = record_R\<lparr>wal_records := \<lparr>Int64 = 0, Valid = True\<rparr>\<rparr>"


definition record_min :: SpanRecord where
  "record_min = record_R\<lparr>spanId := 0\<rparr>"

definition record_max :: SpanRecord where
  "record_max = record_R\<lparr>spanId := 0xFFFFFFFFFFFFFFFF\<rparr>"


definition record_err :: SpanRecord where
  "record_err = record_R\<lparr>sql_error_code := ''42601'',
     deparse_info := \<lparr>String = ''select 1'', SValid = True\<rparr>\<rparr>"

section \<open>Lemmas about the model\<close>

subsection \<open>Big-endian bytes\<close>

lemma be_step:
  fixes v :: "64 word"
  shows "push_bit 8 (ucast (drop_bit (k + 8) v) :: 'a::len word) OR ucast (ucast (drop_bit k v) :: 8 word)
         = ucast (drop_bit k v)"
proof (rule bit_word_eqI)
  fix n assume n: "n < LENGTH('a)"
  show "bit (push_bit 8 (ucast (drop_bit (k + 8) v) :: 'a word) OR ucast (ucast (drop_bit k v) :: 8 word)) n
        = bit (ucast (drop_bit k v) :: 'a word) n"
  proof (cases "n < 8")
    case True
    then show ?thesis using n by (simp add: bit_simps)
  next
    case False
    then have "n - 8 + (k + 8) = n + k" by simp
    moreover have "n - 8 < LENGTH('a)" using n by simp
    ultimately show ?thesis using n False by (simp add: bit_simps add.commute)
  qed
qed

lemma length_make_bytes: "length (make_bytes n) = n"
  by (simp add: make_bytes_def)

lemma make_bytes_8: "make_bytes 8 = [0,0,0,0,0,0,0,0]"
  by (simp add: make_bytes_def numeral_eq_Suc)

lemma make_bytes_16: "make_bytes 16 = [0,0,0,0,0,0,0,0,0,0,0,0,0,0,0,0]"
  by (simp add: make_bytes_def numeral_eq_Suc)

lemma PutUint64_8: "PutUint64 (make_bytes 8) v = be_bytes v"
  by (simp add: make_bytes_8 PutUint64_def be_bytes_def)

lemma PutUint64_16: "PutUint64 (make_bytes 16) v = be_bytes v @ make_bytes 8"
  by (simp add: make_bytes_16 make_bytes_8 PutUint64_def be_bytes_def)

lemma be_word_be_bytes: "be_word (be_bytes v) (0 :: 'a::len word) = ucast v"
proof -
  have s: "\<And>k. push_bit 8 (ucast (drop_bit (k + 8) v) :: 'a word) OR ucast (ucast (drop_bit k v) :: 8 word)
         = ucast (drop_bit k v)" by (rule be_step)
  have "be_word (be_bytes v) (ucast (drop_bit 64 v) :: 'a word) = ucast v"
    unfolding be_bytes_def be_word.simps
    using s[of 56] s[of 48] s[of 40] s[of 32] s[of 24] s[of 16] s[of 8] s[of 0]
    by simp
  moreover have "drop_bit 64 v = 0"
    by (rule bit_word_eqI) (simp add: bit_simps)
  ultimately show ?thesis by simp
qed

lemma be_word_zeros: "be_word (replicate n 0) (acc :: 'a::len word) = push_bit (8 * n) acc"
  by (induction n arbitrary: acc) (simp_all add: ac_simps)

lemma be_word_append: "be_word (xs @ ys) acc = be_word ys (be_word xs acc)"
  by (induction xs arbitrary: acc) simp_all

lemma length_be_bytes: "length (be_bytes v) = 8"
  by (simp add: be_bytes_def)

lemma Uint64_be_bytes: "Uint64 (be_bytes v) = v"
  by (simp add: Uint64_def length_be_bytes be_word_be_bytes)

lemma Uint128_be_bytes: "Uint128 (be_bytes v @ make_bytes 8) = push_bit 64 (ucast v)"
  by (simp add: Uint128_def length_be_bytes be_word_append be_word_be_bytes make_bytes_def be_word_zeros)

lemma be_bytes_1: "be_bytes 1 = [0,0,0,0,0,0,0,1]"
  by (simp add: be_bytes_def)

subsection \<open>Time\<close>



lemma sint_scast_int32: "sint (scast (w :: int32) :: int64) = sint w"
  by (rule sint_up_scast) (simp add: is_up)






subsection \<open>One row, and the loop\<close>

lemma emit_span_eq:
  assumes "FixedTraceID (generator s) = make_bytes 16" and "length (calls s) = 2 * n"
  shows "emit_span r s = \<lparr>generator = generator_at r, ctx = parent (emitted_span (clock s) n r),
                          calls = calls s @ sdk_calls (clock s) n r,
                          spans = spans s @ [emitted_span (clock s) n r], clock = clock s\<rparr>"
  using assms
  by (simp add: emit_span_def Let_def PutUint64_8 PutUint64_16 tracer_Start_def span_End_def
      emitted_span_def generator_at_def sdk_calls_def TraceID_IsValid_def NewIDs_def NewSpanID_def
      spanStartNs_of_def spanEndNs_of_def)

lemma fetch_rows_decodable:
  "FixedTraceID (generator s) = make_bytes 16 \<Longrightarrow> length (calls s) = 2 * n \<Longrightarrow>
   fst (fetch_rows (map Inr rs) s) = Done \<and>
   spans (snd (fetch_rows (map Inr rs) s))
     = spans s @ map (\<lambda>(i, r). emitted_span (clock s) i r) (enumerate n rs) \<and>
   calls (snd (fetch_rows (map Inr rs) s))
     = calls s @ concat (map (\<lambda>(i, r). sdk_calls (clock s) i r) (enumerate n rs))"
proof (induction rs arbitrary: s n)
  case Nil
  then show ?case by simp
next
  case (Cons r rs)
  note e = emit_span_eq [OF Cons.prems, of r]
  have g: "FixedTraceID (generator (emit_span r s)) = make_bytes 16"
    by (simp add: e generator_at_def)
  have l: "length (calls (emit_span r s)) = 2 * Suc n"
    using Cons.prems(2) by (simp add: e sdk_calls_def)
  have c: "clock (emit_span r s) = clock s"
    by (simp add: e)
  from Cons.IH [OF g l] show ?case
    by (simp add: c) (simp add: e)
qed

lemma fetch_rows_failure:
  "fetch_rows (map Inr pre @ Inl err # post) s = (Fatal err, snd (fetch_rows (map Inr pre) s))"
  by (induction pre arbitrary: s) simp_all

lemma run0_generator: "FixedTraceID (generator (run0 now)) = make_bytes 16"
  by (simp add: run0_def)

lemma run0_calls: "length (calls (run0 now)) = 2 * 0"
  by (simp add: run0_def)

lemma run_done: "fst (fetchSpans (Inr (map Inr rs)) (run0 now)) = Done"
  using fetch_rows_decodable [OF run0_generator run0_calls, of rs now]
  by (simp add: fetchSpans_def)

lemma run_spans:
  "spans (snd (fetchSpans (Inr (map Inr rs)) (run0 now)))
     = map (\<lambda>(i, r). emitted_span now i r) (enumerate 0 rs)"
  using fetch_rows_decodable [OF run0_generator run0_calls, of rs now]
  by (simp add: fetchSpans_def run0_def)

lemma run_calls:
  "calls (snd (fetchSpans (Inr (map Inr rs)) (run0 now)))
     = concat (map (\<lambda>(i, r). sdk_calls now i r) (enumerate 0 rs))"
  using fetch_rows_decodable [OF run0_generator run0_calls, of rs now]
  by (simp add: fetchSpans_def run0_def)

lemma run_single: "spans (snd (fetchSpans (Inr [Inr r]) (run0 now))) = [emitted_span now 0 r]"
  using run_spans [of "[r]" now] by simp

lemma map_enumerate_indep:
  assumes "\<And>i r. r \<in> set rs \<Longrightarrow> f (h i r) = g r"
  shows "map f (map (\<lambda>(i, r). h i r) (enumerate n rs)) = map g rs"
  using assms by (induction rs arbitrary: n) simp_all

lemma run_map:
  assumes "\<And>i r. r \<in> set rs \<Longrightarrow> f (emitted_span now i r) = g r"
  shows "map f (spans (snd (fetchSpans (Inr (map Inr rs)) (run0 now)))) = map g rs"
  unfolding run_spans
  by (rule map_enumerate_indep [where h = "emitted_span now"]) (rule assms)

lemma run_length: "length (spans (snd (fetchSpans (Inr (map Inr rs)) (run0 now)))) = length rs"
  by (simp add: run_spans)

lemma run_nth:
  assumes "\<And>i r. f (emitted_span now i r) = g r" and "i < length rs"
  shows "f (spans (snd (fetchSpans (Inr (map Inr rs)) (run0 now))) ! i) = g (rs ! i)"
proof -
  have m: "map f (spans (snd (fetchSpans (Inr (map Inr rs)) (run0 now)))) = map g rs"
    by (rule run_map) (rule assms(1))
  have "f (spans (snd (fetchSpans (Inr (map Inr rs)) (run0 now))) ! i)
        = map f (spans (snd (fetchSpans (Inr (map Inr rs)) (run0 now)))) ! i"
    using assms(2) by (simp add: run_length)
  also have "\<dots> = g (rs ! i)"
    unfolding m using assms(2) by simp
  finally show ?thesis .
qed

subsection \<open>Attributes\<close>

lemma setMetricIfValue_eq: "setMetricIfValue a k v = a @ optional_attribute (k, NInt v)"
  by (simp add: setMetricIfValue_def optional_attribute_def attribute_Int64_def)

lemma setMetricIfValueFloat_eq: "setMetricIfValueFloat a k v = a @ optional_attribute (k, NFloat v)"
  by (simp add: setMetricIfValueFloat_def optional_attribute_def attribute_Float64_def)

lemma record_attributes_eq:
  "record_attributes r =
     [(''pid'', INT64 (scast (pid r))), (''subxact_count'', INT64 (scast (subxact_count r)))]
     @ concat (map optional_attribute (optional_metrics r)) @ error_attributes r"
  by (simp add: record_attributes_def Let_def setMetricIfValue_eq setMetricIfValueFloat_eq
      optional_metrics_def error_attributes_def attribute_Int_def attribute_String_def)

lemma mem_optional:
  "(k, v) \<in> set (concat (map optional_attribute tbl)) \<longleftrightarrow>
   (\<exists>m. (k, m) \<in> set tbl \<and> present_nonzero m \<and> v = metric_value m)"
  by (induction tbl) (auto simp: optional_attribute_def)

lemma optional_keys_distinct: "distinct (map fst (optional_metrics r))"
  by (simp add: optional_metrics_def)

lemma optional_keys_all:
  "\<forall>k \<in> set (map fst (optional_metrics r)).
     k \<noteq> ''pid'' \<and> k \<noteq> ''subxact_count'' \<and> k \<noteq> ''error.msg'' \<and> \<not> error_key k"
  by (simp add: optional_metrics_def error_key_def)

lemma optional_keys_other:
  assumes "(k, m) \<in> set (optional_metrics r)"
  shows "k \<noteq> ''pid'' \<and> k \<noteq> ''subxact_count'' \<and> k \<noteq> ''error.msg'' \<and> \<not> error_key k"
proof -
  from assms have "fst (k, m) \<in> fst ` set (optional_metrics r)" by (rule imageI)
  then have "k \<in> set (map fst (optional_metrics r))" by simp
  with optional_keys_all show ?thesis by blast
qed

lemma mem_record_attributes:
  assumes "(k, m) \<in> set (optional_metrics r)"
  shows "(k, v) \<in> set (record_attributes r) \<longleftrightarrow> present_nonzero m \<and> v = metric_value m"
proof -
  have u: "m' = m" if "(k, m') \<in> set (optional_metrics r)" for m'
    by (rule eq_key_imp_eq_value [OF optional_keys_distinct that assms])
  note o = optional_keys_other [OF assms]
  have e: "(k, v) \<notin> set (error_attributes r)"
    using o by (simp add: error_attributes_def)
  have "(k, v) \<in> set (record_attributes r) \<longleftrightarrow>
        (k, v) \<in> set (concat (map optional_attribute (optional_metrics r)))"
    unfolding record_attributes_eq set_append using o e by simp
  also have "\<dots> \<longleftrightarrow> (\<exists>m'. (k, m') \<in> set (optional_metrics r) \<and> present_nonzero m' \<and> v = metric_value m')"
    by (rule mem_optional)
  also have "\<dots> \<longleftrightarrow> present_nonzero m \<and> v = metric_value m"
    using assms u by blast
  finally show ?thesis .
qed

lemma filter_optional_error:
  "filter (\<lambda>kv. error_key (fst kv)) (concat (map optional_attribute (optional_metrics r))) = []"
proof -
  have "\<not> error_key (fst kv)" if "kv \<in> set (concat (map optional_attribute (optional_metrics r)))" for kv
  proof -
    obtain k v where kv: "kv = (k, v)" by (cases kv)
    with that obtain m where "(k, m) \<in> set (optional_metrics r)"
      unfolding mem_optional kv by blast
    from optional_keys_other [OF this] show ?thesis by (simp add: kv)
  qed
  then show ?thesis by (simp add: filter_empty_conv)
qed

lemma filter_error_attributes:
  "filter (\<lambda>kv. error_key (fst kv)) (record_attributes r) = error_attributes r"
proof -
  have "filter (\<lambda>kv. error_key (fst kv)) (error_attributes r) = error_attributes r"
    by (simp add: error_key_def error_attributes_def)
  then show ?thesis
    by (simp add: record_attributes_eq filter_optional_error) (simp add: error_key_def)
qed

lemma rows_attribute_absent: "''rows'' \<notin> fst ` set (record_attributes r)"
proof
  assume "''rows'' \<in> fst ` set (record_attributes r)"
  then obtain v where v: "(''rows'', v) \<in> set (record_attributes r)" by force
  have "''rows'' \<notin> set (map fst (optional_metrics r))"
    by (simp add: optional_metrics_def)
  then have "(''rows'', m) \<notin> set (optional_metrics r)" for m
    by force
  then have "(''rows'', v) \<notin> set (concat (map optional_attribute (optional_metrics r)))"
    unfolding mem_optional by blast
  with v show False
    unfolding record_attributes_eq set_append by (simp add: error_attributes_def split: if_splits)
qed





subsection \<open>The example records\<close>

lemma example_names:
  "span_operation record_R = ''Planner''" "SValid (deparse_info record_R) = False"
  "span_operation record_err = ''Planner''"
  "deparse_info record_err = \<lparr>String = ''select 1'', SValid = True\<rparr>"
  by (simp_all add: record_R_def record_err_def null_string_def)


section \<open>Identifiers\<close>

text \<open>
  C1, as stated: the emitted trace ID would be the record's \<open>traceId\<close> in the low-order
  bytes of a 16-byte buffer, zero bytes before it. For the record with \<open>traceId = 1\<close> the
  run emits the trace ID \<open>00 00 00 00 00 00 00 01 00 .. 00\<close>: \<open>PutUint64\<close> writes at
  the start of the buffer, so the value sits in the first eight bytes.
\<close>

theorem trace_id_widening_counterexample:
  "TraceID (spanContext (hd (spans (snd (fetchSpans (Inr [Inr record_R]) (run0 wall_clock))))))
     = [0, 0, 0, 0, 0, 0, 0, 1, 0, 0, 0, 0, 0, 0, 0, 0]
   \<and> widen_low_order 16 (traceId record_R) = [0, 0, 0, 0, 0, 0, 0, 0, 0, 0, 0, 0, 0, 0, 0, 1]
   \<and> TraceID (spanContext (hd (spans (snd (fetchSpans (Inr [Inr record_R]) (run0 wall_clock))))))
     \<noteq> widen_low_order 16 (traceId record_R)"
proof -
  have a: "TraceID (spanContext (hd (spans (snd (fetchSpans (Inr [Inr record_R]) (run0 wall_clock))))))
     = be_bytes 1 @ make_bytes 8"
    by (simp add: run_single emitted_span_def record_R_def)
  have b: "widen_low_order 16 (traceId record_R) = make_bytes 8 @ be_bytes 1"
    by (simp add: widen_low_order_def PutUint64_8 record_R_def)
  show ?thesis unfolding a b by (simp add: be_bytes_1 make_bytes_8)
qed

text \<open>
  C1, amended: for every sequence of decodable rows, the span emitted for a record has
  as trace ID the 16 bytes made of the big-endian bytes of \<open>traceId\<close> followed by eight
  zero bytes (as a 128-bit number, \<open>traceId\<close> shifted left by 64 bits), as span ID the
  eight big-endian bytes of \<open>spanId\<close>, and as parent the span context with that same
  trace ID and the eight big-endian bytes of \<open>parentId\<close>.
\<close>

theorem replayed_identifiers:
  "map spanContext (spans (snd (fetchSpans (Inr (map Inr rs)) (run0 now))))
     = map (\<lambda>r. \<lparr>TraceID = PutUint64 (make_bytes 8) (traceId r) @ make_bytes 8,
                  SpanID = PutUint64 (make_bytes 8) (spanId r)\<rparr>) rs
   \<and> map parent (spans (snd (fetchSpans (Inr (map Inr rs)) (run0 now))))
     = map (\<lambda>r. \<lparr>TraceID = PutUint64 (make_bytes 8) (traceId r) @ make_bytes 8,
                  SpanID = PutUint64 (make_bytes 8) (parentId r)\<rparr>) rs
   \<and> map (\<lambda>sp. (Uint128 (TraceID (spanContext sp)), Uint64 (SpanID (spanContext sp)),
                 Uint64 (SpanID (parent sp))))
         (spans (snd (fetchSpans (Inr (map Inr rs)) (run0 now))))
     = map (\<lambda>r. (push_bit 64 (ucast (traceId r)), spanId r, parentId r)) rs
   \<and> map (\<lambda>sp. (length (TraceID (spanContext sp)), length (SpanID (spanContext sp)),
                 length (SpanID (parent sp))))
         (spans (snd (fetchSpans (Inr (map Inr rs)) (run0 now))))
     = map (\<lambda>r. (16, 8, 8)) rs"
proof (intro conjI)
  show "map spanContext (spans (snd (fetchSpans (Inr (map Inr rs)) (run0 now))))
     = map (\<lambda>r. \<lparr>TraceID = PutUint64 (make_bytes 8) (traceId r) @ make_bytes 8,
                  SpanID = PutUint64 (make_bytes 8) (spanId r)\<rparr>) rs"
    by (rule run_map) (simp add: emitted_span_def PutUint64_8)
  show "map parent (spans (snd (fetchSpans (Inr (map Inr rs)) (run0 now))))
     = map (\<lambda>r. \<lparr>TraceID = PutUint64 (make_bytes 8) (traceId r) @ make_bytes 8,
                  SpanID = PutUint64 (make_bytes 8) (parentId r)\<rparr>) rs"
    by (rule run_map) (simp add: emitted_span_def PutUint64_8)
  show "map (\<lambda>sp. (Uint128 (TraceID (spanContext sp)), Uint64 (SpanID (spanContext sp)),
                 Uint64 (SpanID (parent sp))))
         (spans (snd (fetchSpans (Inr (map Inr rs)) (run0 now))))
     = map (\<lambda>r. (push_bit 64 (ucast (traceId r)), spanId r, parentId r)) rs"
    by (rule run_map) (simp add: emitted_span_def Uint128_be_bytes Uint64_be_bytes)
  show "map (\<lambda>sp. (length (TraceID (spanContext sp)), length (SpanID (spanContext sp)),
                 length (SpanID (parent sp))))
         (spans (snd (fetchSpans (Inr (map Inr rs)) (run0 now))))
     = map (\<lambda>r. (16, 8, 8)) rs"
    by (rule run_map) (simp add: emitted_span_def length_be_bytes length_make_bytes)
qed

text \<open>The root record and its first child: trace ID \<open>1 * 2^64\<close>, span IDs 10 and 11, parents 0 and 10.\<close>

theorem replayed_identifiers_witness:
  "map (\<lambda>sp. (Uint128 (TraceID (spanContext sp)), Uint64 (SpanID (spanContext sp)),
               Uint64 (SpanID (parent sp))))
       (spans (snd (fetchSpans (Inr (map Inr [record_R, record_C1])) (run0 wall_clock))))
   = [(18446744073709551616, 10, 0), (18446744073709551616, 11, 10)]"
  using replayed_identifiers [of "[record_R, record_C1]" wall_clock]
  by (simp add: record_R_def record_C1_def)

text \<open>
  C2: in every run over decodable rows, reading the span ID of an emitted span back as
  a big-endian 64-bit number gives the \<open>spanId\<close> of its record, whatever that 64-bit
  value is; and so does reading back what \<open>PutUint64\<close> wrote into a fresh 8-byte buffer.
\<close>

theorem span_id_round_trip:
  "map (\<lambda>sp. Uint64 (SpanID (spanContext sp)))
       (spans (snd (fetchSpans (Inr (map Inr rs)) (run0 now))))
     = map spanId rs
   \<and> Uint64 (PutUint64 (make_bytes 8) v) = v"
proof (intro conjI)
  show "map (\<lambda>sp. Uint64 (SpanID (spanContext sp)))
       (spans (snd (fetchSpans (Inr (map Inr rs)) (run0 now)))) = map spanId rs"
    by (rule run_map) (simp add: emitted_span_def Uint64_be_bytes)
  show "Uint64 (PutUint64 (make_bytes 8) v) = v"
    by (simp add: PutUint64_8 Uint64_be_bytes)
qed

text \<open>Records with the span IDs 0 and \<open>2^64 - 1\<close>.\<close>

theorem span_id_round_trip_witness:
  "map (\<lambda>sp. Uint64 (SpanID (spanContext sp)))
       (spans (snd (fetchSpans (Inr (map Inr [record_min, record_max])) (run0 wall_clock))))
     = [0, 18446744073709551615]"
  using span_id_round_trip [of "[record_min, record_max]" wall_clock]
  by (simp add: record_min_def record_max_def)

section \<open>Attributes\<close>

text \<open>
  C3, as stated: the \<open>subxact_count\<close> key would be absent when the count is zero. The
  record \<open>record_R\<close> has a zero count and its span carries \<open>subxact_count = 0\<close>.
\<close>

theorem sparsity_counterexample:
  "subxact_count record_R = 0
   \<and> (''subxact_count'', INT64 0)
       \<in> set (attributes (hd (spans (snd (fetchSpans (Inr [Inr record_R]) (run0 wall_clock))))))"
proof -
  have "attributes (hd (spans (snd (fetchSpans (Inr [Inr record_R]) (run0 wall_clock)))))
     = record_attributes record_R"
    by (simp add: run_single emitted_span_def)
  then show ?thesis
    by (simp add: record_attributes_eq) (simp add: record_R_def)
qed

text \<open>
  C3, amended: for every decodable record and every optional numeric metric that
  \<open>fetchSpans\<close> appends through \<open>setMetricIfValue\<close> or \<open>setMetricIfValueFloat\<close>
  (block counters and times, WAL counts, planner estimates, JIT metrics), the key is
  among the attributes of the emitted span exactly when the metric is present and
  non-zero, and the only value it is paired with is the metric's.
\<close>

theorem optional_metric_sparsity:
  assumes "i < length rs" and "(k, m) \<in> set (optional_metrics (rs ! i))"
  shows "((k, v) \<in> set (attributes (spans (snd (fetchSpans (Inr (map Inr rs)) (run0 now))) ! i))
            \<longleftrightarrow> present_nonzero m \<and> v = metric_value m)
         \<and> (k \<in> fst ` set (attributes (spans (snd (fetchSpans (Inr (map Inr rs)) (run0 now))) ! i))
            \<longleftrightarrow> present_nonzero m)"
proof -
  have a: "attributes (spans (snd (fetchSpans (Inr (map Inr rs)) (run0 now))) ! i)
           = record_attributes (rs ! i)"
    by (rule run_nth [OF _ assms(1)]) (simp add: emitted_span_def)
  have b: "(k, w) \<in> set (record_attributes (rs ! i)) \<longleftrightarrow> present_nonzero m \<and> w = metric_value m" for w
    by (rule mem_record_attributes [OF assms(2)])
  have "k \<in> fst ` set (record_attributes (rs ! i)) \<longleftrightarrow> (\<exists>w. (k, w) \<in> set (record_attributes (rs ! i)))"
    by force
  also have "\<dots> \<longleftrightarrow> present_nonzero m" unfolding b by simp
  finally show ?thesis unfolding a using b by simp
qed

text \<open>With \<open>wal_records = 5\<close> the span carries \<open>wal.records = 5\<close>; with \<open>wal_records = 0\<close> it has no \<open>wal.records\<close> key.\<close>

theorem optional_metric_sparsity_witness:
  "(''wal.records'', INT64 5)
     \<in> set (attributes (spans (snd (fetchSpans (Inr (map Inr [record_wal5, record_wal0])) (run0 wall_clock))) ! 0))
   \<and> ''wal.records''
     \<notin> fst ` set (attributes (spans (snd (fetchSpans (Inr (map Inr [record_wal5, record_wal0])) (run0 wall_clock))) ! 1))"
proof -
  have m5: "(''wal.records'', NInt \<lparr>Int64 = 5, Valid = True\<rparr>) \<in> set (optional_metrics ([record_wal5, record_wal0] ! 0))"
    by (simp add: optional_metrics_def record_wal5_def)
  have m0: "(''wal.records'', NInt \<lparr>Int64 = 0, Valid = True\<rparr>) \<in> set (optional_metrics ([record_wal5, record_wal0] ! 1))"
    by (simp add: optional_metrics_def record_wal0_def)
  have l0: "0 < length [record_wal5, record_wal0]" by simp
  have l1: "1 < length [record_wal5, record_wal0]" by simp
  show ?thesis
    using optional_metric_sparsity [OF l0 m5, of "INT64 5" wall_clock]
      optional_metric_sparsity [OF l1 m0, of "INT64 0" wall_clock]
    by simp
qed

section \<open>Timestamps\<close>




section \<open>Error codes\<close>




section \<open>The run as a sequence of SDK calls\<close>

text \<open>
  C6: for every finite sequence of decodable rows the run completes, emits the spans of
  the records one per record in input order, and its calls to the SDK are, record by
  record, one span-start immediately followed by the end of that same span; at each
  span-start the generator's \<open>FixedSpanID\<close> holds the eight bytes written from that
  record's \<open>spanId\<close>, which is the span ID the span gets.
\<close>

theorem sequential_replay:
  "fst (fetchSpans (Inr (map Inr rs)) (run0 now)) = Done
   \<and> spans (snd (fetchSpans (Inr (map Inr rs)) (run0 now)))
     = map (\<lambda>(i, r). emitted_span now i r) (enumerate 0 rs)
   \<and> calls (snd (fetchSpans (Inr (map Inr rs)) (run0 now)))
     = concat (map (\<lambda>(i, r). [StartCall \<lparr>FixedSpanID = PutUint64 (make_bytes 8) (spanId r),
                                           FixedTraceID = make_bytes 16\<rparr>
                                         ((emitted_span now i r)\<lparr>endTime := None\<rparr>),
                               EndCall (emitted_span now i r)]) (enumerate 0 rs))
   \<and> map (\<lambda>sp. SpanID (spanContext sp)) (spans (snd (fetchSpans (Inr (map Inr rs)) (run0 now))))
     = map (\<lambda>r. PutUint64 (make_bytes 8) (spanId r)) rs"
proof -
  have c: "calls (snd (fetchSpans (Inr (map Inr rs)) (run0 now)))
     = concat (map (\<lambda>(i, r). [StartCall \<lparr>FixedSpanID = PutUint64 (make_bytes 8) (spanId r),
                                           FixedTraceID = make_bytes 16\<rparr>
                                         ((emitted_span now i r)\<lparr>endTime := None\<rparr>),
                               EndCall (emitted_span now i r)]) (enumerate 0 rs))"
    by (simp add: run_calls sdk_calls_def [abs_def] generator_at_def PutUint64_8)
  have i: "map (\<lambda>sp. SpanID (spanContext sp)) (spans (snd (fetchSpans (Inr (map Inr rs)) (run0 now))))
     = map (\<lambda>r. PutUint64 (make_bytes 8) (spanId r)) rs"
    by (rule run_map) (simp add: emitted_span_def PutUint64_8)
  from c i run_done [of rs now] run_spans [of rs now] show ?thesis
    by (intro conjI)
qed

text \<open>The three records of the end-to-end scenario: six calls, the generator set to 10, 11, 12 in turn.\<close>

theorem sequential_replay_witness:
  "map (\<lambda>c. case c of StartCall g sp \<Rightarrow> (''start'', FixedSpanID g, SpanID (spanContext sp))
                     | EndCall sp \<Rightarrow> (''end'', [], SpanID (spanContext sp)))
       (calls (snd (fetchSpans (Inr (map Inr [record_R, record_C1, record_C2])) (run0 wall_clock))))
   = [(''start'', [0, 0, 0, 0, 0, 0, 0, 10], [0, 0, 0, 0, 0, 0, 0, 10]),
      (''end'', [], [0, 0, 0, 0, 0, 0, 0, 10]),
      (''start'', [0, 0, 0, 0, 0, 0, 0, 11], [0, 0, 0, 0, 0, 0, 0, 11]),
      (''end'', [], [0, 0, 0, 0, 0, 0, 0, 11]),
      (''start'', [0, 0, 0, 0, 0, 0, 0, 12], [0, 0, 0, 0, 0, 0, 0, 12]),
      (''end'', [], [0, 0, 0, 0, 0, 0, 0, 12])]"
proof -
  have b: "be_bytes 10 = [0, 0, 0, 0, 0, 0, 0, 10]" "be_bytes 11 = [0, 0, 0, 0, 0, 0, 0, 11]"
    "be_bytes 12 = [0, 0, 0, 0, 0, 0, 0, 12]"
    by (simp_all add: be_bytes_def)
  have i: "spanId record_R = 10" "spanId record_C1 = 11" "spanId record_C2 = 12"
    by (simp_all add: record_R_def record_C1_def record_C2_def)
  show ?thesis
    using sequential_replay [of "[record_R, record_C1, record_C2]" wall_clock]
    by (simp add: emitted_span_def PutUint64_8 i b)
qed

text \<open>
  C7: the name of the span of a record is the operation name, followed by one space and
  the detail string when \<open>deparse_info\<close> is not null.
\<close>

theorem replayed_span_name:
  "map name (spans (snd (fetchSpans (Inr (map Inr rs)) (run0 now))))
   = map (\<lambda>r. if SValid (deparse_info r)
               then span_operation r @ '' '' @ String (deparse_info r)
               else span_operation r) rs"
  by (rule run_map) (simp add: emitted_span_def spanName_def Sprintf_s_s_def)

text \<open>Without and with a detail string.\<close>

theorem replayed_span_name_witness:
  "map name (spans (snd (fetchSpans (Inr (map Inr [record_R, record_err])) (run0 wall_clock))))
   = [''Planner'', ''Planner select 1'']"
  using replayed_span_name [of "[record_R, record_err]" wall_clock]
  by (simp add: example_names)

text \<open>
  C8: when a row fails to scan after any number of rows that scanned, the run ends
  fatally with that error in the state it had reached before the row: the spans and SDK
  calls are those of the rows before it, none for the failing row or any later one.
\<close>

theorem decode_failure_is_fatal:
  "fetchSpans (Inr (map Inr pre @ Inl err # post)) (run0 now)
     = (Fatal err, snd (fetchSpans (Inr (map Inr pre)) (run0 now)))
   \<and> spans (snd (fetchSpans (Inr (map Inr pre @ Inl err # post)) (run0 now)))
       = map (\<lambda>(i, r). emitted_span now i r) (enumerate 0 pre)
   \<and> calls (snd (fetchSpans (Inr (map Inr pre @ Inl err # post)) (run0 now)))
       = concat (map (\<lambda>(i, r). sdk_calls now i r) (enumerate 0 pre))"
proof -
  have a: "fetchSpans (Inr (map Inr pre @ Inl err # post)) (run0 now)
     = (Fatal err, snd (fetchSpans (Inr (map Inr pre)) (run0 now)))"
    by (simp add: fetchSpans_def fetch_rows_failure)
  show ?thesis unfolding a by (simp add: run_spans run_calls)
qed

text \<open>A failing row between two good ones: one span, for the first row.\<close>

theorem decode_failure_is_fatal_witness:
  "fst (fetchSpans (Inr [Inr record_R, Inl ''scan failed'', Inr record_C1]) (run0 wall_clock))
     = Fatal ''scan failed''
   \<and> map name (spans (snd (fetchSpans (Inr [Inr record_R, Inl ''scan failed'', Inr record_C1])
                               (run0 wall_clock))))
     = [''Planner'']"
proof -
  note t = decode_failure_is_fatal [of "[record_R]" "''scan failed''" "[Inr record_C1]" wall_clock,
      unfolded list.map append.simps]
  have a: "fetchSpans (Inr [Inr record_R, Inl ''scan failed'', Inr record_C1]) (run0 wall_clock)
            = (Fatal ''scan failed'', snd (fetchSpans (Inr [Inr record_R]) (run0 wall_clock)))"
    using t by (rule conjunct1)
  have b: "spans (snd (fetchSpans (Inr [Inr record_R, Inl ''scan failed'', Inr record_C1])
                         (run0 wall_clock)))
            = map (\<lambda>(i, r). emitted_span wall_clock i r) (enumerate 0 [record_R])"
    using t by (rule conjunct1 [OF conjunct2])
  have c: "fst (fetchSpans (Inr [Inr record_R, Inl ''scan failed'', Inr record_C1]) (run0 wall_clock))
            = Fatal ''scan failed''"
    by (simp only: a fst_conv)
  have d: "map name (spans (snd (fetchSpans (Inr [Inr record_R, Inl ''scan failed'', Inr record_C1])
                                   (run0 wall_clock))))
            = [''Planner'']"
    unfolding b by (simp add: emitted_span_def spanName_def example_names)
  from c d show ?thesis by (rule conjI)
qed

section \<open>More on attributes\<close>

text \<open>
  C9: the attributes of every emitted span begin with \<open>pid\<close> and \<open>subxact_count\<close>,
  each exactly once in the list, with the record's 32-bit values sign-extended to 64
  bits, whatever the values are.
\<close>

theorem pid_and_subxact_count_always_present:
  "map (\<lambda>sp. take 2 (attributes sp)) (spans (snd (fetchSpans (Inr (map Inr rs)) (run0 now))))
     = map (\<lambda>r. [(''pid'', INT64 (scast (pid r))),
                  (''subxact_count'', INT64 (scast (subxact_count r)))]) rs
   \<and> map (\<lambda>sp. map (\<lambda>k. map (\<lambda>v. case v of INT64 n \<Rightarrow> Some (sint n) | _ \<Rightarrow> None)
                               (map snd (filter (\<lambda>kv. fst kv = k) (attributes sp))))
                   [''pid'', ''subxact_count''])
         (spans (snd (fetchSpans (Inr (map Inr rs)) (run0 now))))
     = map (\<lambda>r. [[Some (sint (pid r))], [Some (sint (subxact_count r))]]) rs"
proof -
  have o: "filter (\<lambda>kv. fst kv = k) (concat (map optional_attribute (optional_metrics r))) = []"
    if "k = ''pid'' \<or> k = ''subxact_count''" for k r
  proof -
    have "fst kv \<noteq> k" if m: "kv \<in> set (concat (map optional_attribute (optional_metrics r)))" for kv
    proof -
      obtain k' v where kv: "kv = (k', v)" by (cases kv)
      with m obtain m' where "(k', m') \<in> set (optional_metrics r)"
        unfolding mem_optional kv by blast
      from optional_keys_other [OF this] \<open>k = ''pid'' \<or> k = ''subxact_count''\<close>
      show ?thesis by (auto simp: kv)
    qed
    then show ?thesis by (simp add: filter_empty_conv)
  qed
  show ?thesis
  proof (intro conjI)
    show "map (\<lambda>sp. take 2 (attributes sp)) (spans (snd (fetchSpans (Inr (map Inr rs)) (run0 now))))
     = map (\<lambda>r. [(''pid'', INT64 (scast (pid r))),
                  (''subxact_count'', INT64 (scast (subxact_count r)))]) rs"
      by (rule run_map) (simp add: emitted_span_def record_attributes_eq)
    show "map (\<lambda>sp. map (\<lambda>k. map (\<lambda>v. case v of INT64 n \<Rightarrow> Some (sint n) | _ \<Rightarrow> None)
                               (map snd (filter (\<lambda>kv. fst kv = k) (attributes sp))))
                   [''pid'', ''subxact_count''])
         (spans (snd (fetchSpans (Inr (map Inr rs)) (run0 now))))
     = map (\<lambda>r. [[Some (sint (pid r))], [Some (sint (subxact_count r))]]) rs"
      by (rule run_map)
         (simp add: emitted_span_def record_attributes_eq o error_attributes_def sint_scast_int32)
  qed
qed

text \<open>A record with \<open>subxact_count = 0\<close>.\<close>

theorem pid_and_subxact_count_always_present_witness:
  "map (\<lambda>sp. take 2 (attributes sp))
       (spans (snd (fetchSpans (Inr (map Inr [record_R])) (run0 wall_clock))))
   = [[(''pid'', INT64 4242), (''subxact_count'', INT64 0)]]"
  using pid_and_subxact_count_always_present [of "[record_R]" wall_clock]
  by (simp add: record_R_def)

text \<open>
  C10: the attributes under an error key of an emitted span are, when the record's SQL
  error code is not \<open>00000\<close>, exactly two, both under \<open>error.msg\<close>: first the text
  \<open>Query error\<close>, then the error code; they come after all the other attributes, and
  there is none when the code is \<open>00000\<close>.
\<close>

theorem error_attribute_pair:
  "map (\<lambda>sp. filter (\<lambda>kv. error_key (fst kv)) (attributes sp))
       (spans (snd (fetchSpans (Inr (map Inr rs)) (run0 now))))
     = map (\<lambda>r. if sql_error_code r \<noteq> ''00000''
                 then [(''error.msg'', STRING ''Query error''),
                       (''error.msg'', STRING (sql_error_code r))]
                 else []) rs
   \<and> map attributes (spans (snd (fetchSpans (Inr (map Inr rs)) (run0 now))))
     = map (\<lambda>r. record_attributes (r\<lparr>sql_error_code := ''00000''\<rparr>)
                 @ (if sql_error_code r \<noteq> ''00000''
                    then [(''error.msg'', STRING ''Query error''),
                          (''error.msg'', STRING (sql_error_code r))]
                    else [])) rs"
proof -
  have m: "optional_metrics (r\<lparr>sql_error_code := ''00000''\<rparr>) = optional_metrics r" for r
    by (simp add: optional_metrics_def)
  have e: "error_attributes (r\<lparr>sql_error_code := ''00000''\<rparr>) = []" for r
    by (simp add: error_attributes_def)
  have "record_attributes (r\<lparr>sql_error_code := ''00000''\<rparr>) @ error_attributes r = record_attributes r" for r
    unfolding record_attributes_eq m e by simp
  then have s: "record_attributes (r\<lparr>sql_error_code := ''00000''\<rparr>)
                 @ (if sql_error_code r \<noteq> ''00000''
                    then [(''error.msg'', STRING ''Query error''),
                          (''error.msg'', STRING (sql_error_code r))]
                    else []) = record_attributes r" for r
    by (simp only: error_attributes_def)
  have f: "filter (\<lambda>kv. error_key (fst kv)) (record_attributes r)
           = (if sql_error_code r \<noteq> ''00000''
                 then [(''error.msg'', STRING ''Query error''),
                       (''error.msg'', STRING (sql_error_code r))]
                 else [])" for r
    by (simp only: filter_error_attributes error_attributes_def)
  show ?thesis
  proof (intro conjI)
    show "map (\<lambda>sp. filter (\<lambda>kv. error_key (fst kv)) (attributes sp))
       (spans (snd (fetchSpans (Inr (map Inr rs)) (run0 now))))
     = map (\<lambda>r. if sql_error_code r \<noteq> ''00000''
                 then [(''error.msg'', STRING ''Query error''),
                       (''error.msg'', STRING (sql_error_code r))]
                 else []) rs"
      by (rule run_map) (simp add: emitted_span_def f)
    show "map attributes (spans (snd (fetchSpans (Inr (map Inr rs)) (run0 now))))
     = map (\<lambda>r. record_attributes (r\<lparr>sql_error_code := ''00000''\<rparr>)
                 @ (if sql_error_code r \<noteq> ''00000''
                    then [(''error.msg'', STRING ''Query error''),
                          (''error.msg'', STRING (sql_error_code r))]
                    else [])) rs"
      by (rule run_map) (simp add: emitted_span_def s)
  qed
qed

text \<open>The record with code \<open>42601\<close>.\<close>

theorem error_attribute_pair_witness:
  "map (\<lambda>sp. filter (\<lambda>kv. error_key (fst kv)) (attributes sp))
       (spans (snd (fetchSpans (Inr (map Inr [record_err])) (run0 wall_clock))))
   = [[(''error.msg'', STRING ''Query error''), (''error.msg'', STRING ''42601'')]]"
  using error_attribute_pair [of "[record_err]" wall_clock]
  by (simp add: record_R_def record_err_def)

end
